theory Spec2Isabelle
  imports Main "HOL-Library.Sublist" "HOL-Library.Char_ord" "HOL-Library.List_Lexorder"
begin

section \<open>Values shared by all components\<close>

text \<open>
  The agent is Python. Values that travel through \<^verbatim>\<open>json.loads\<close>, through the rows
  of the graph store and through the plan dictionaries are JSON values. Numbers are
  Python integers (a number with a fraction or an exponent is outside the model); a
  \<^verbatim>\<open>dict\<close> is an association list in insertion order. Strings are
  \<open>char list\<close>, one \<open>char\<close> per character (ASCII text).
\<close>

datatype json =
    JNull
  | JBool bool
  | JInt int
  | JStr string
  | JArr "json list"
  | JObj "(string \<times> json) list"

text \<open>A raised \<^verbatim>\<open>Exception\<close>; the string is what \<^verbatim>\<open>str(e)\<close> gives.\<close>

datatype exn = Exn string

text \<open>
  A result row of the graph store (\<^verbatim>\<open>record.data()\<close>): column name to value.
  Query parameters have the same shape.
\<close>

type_synonym row = "(string \<times> json) list"
type_synonym params = "(string \<times> json) list"

text \<open>
  Every call of \<^verbatim>\<open>llm_client.chat.completions.create\<close> sends a prompt that is a fixed
  text with some values spliced in. A request is identified by the call site and the
  spliced values; the provider either raises or returns the message content.
\<close>

datatype llm_request =
    Metadata_classification string
  | Company_extraction string "string list"
  | Context_extraction string "int list" "string list"
  | Extraction_guide string "string list"
  | Table_extraction "string list" string
  | Narrative_summary "string list" string string
  | Final_synthesis string string string
  | Critic_evaluation string string string

type_synonym llm = "llm_request \<Rightarrow> exn + string"

text \<open>
  \<^verbatim>\<open>json.loads\<close> is library code: a parameter of the model, \<open>None\<close> standing for
  \<^verbatim>\<open>JSONDecodeError\<close>.
\<close>

type_synonym loads = "string \<Rightarrow> json option"


section \<open>Graph executor (neo4j\_executor.py)\<close>

text \<open>
  The body of the \<^verbatim>\<open>try\<close> block of \<^verbatim>\<open>Neo4jExecutor.run_cypher_query\<close> opens a
  session, runs the query and collects \<^verbatim>\<open>record.data()\<close> of every record. The driver
  is the parameter \<open>session\<close>: it raises or gives the list of rows. Console output is
  not part of the model.
\<close>

type_synonym session = "string \<Rightarrow> params \<Rightarrow> exn + row list"

definition run_cypher_query :: "session \<Rightarrow> string \<Rightarrow> params \<Rightarrow> row list" where
  "run_cypher_query session query ps =
     (case session query ps of
        Inr result_list \<Rightarrow> result_list
      | Inl e \<Rightarrow> [])"


section \<open>Answer critic (answer\_critic.py)\<close>

definition critic_fallback :: json where
  "critic_fallback =
     JObj [(''decision'', JStr ''ACCEPT''),
           (''feedback'', JStr ''Critic failed to evaluate, accepting by default.'')]"

definition evaluate_and_suggest_improvements ::
  "llm \<Rightarrow> loads \<Rightarrow> string \<Rightarrow> string \<Rightarrow> string \<Rightarrow> json" where
  "evaluate_and_suggest_improvements llm_client json_loads user_query answer context =
     (case llm_client (Critic_evaluation user_query context answer) of
        Inl e \<Rightarrow> critic_fallback
      | Inr evaluation_str \<Rightarrow>
          (case json_loads evaluation_str of
             None \<Rightarrow> critic_fallback
           | Some evaluation \<Rightarrow> evaluation))"


section \<open>Python string helpers\<close>

definition nl :: string where
  "nl = [CHR 0x0A]"

definition sq :: string where
  "sq = [CHR 0x27]"

text \<open>\<^verbatim>\<open>sep.join(xs)\<close>.\<close>

fun join :: "string \<Rightarrow> string list \<Rightarrow> string" where
  "join sep [] = []"
| "join sep [x] = x"
| "join sep (x # y # ys) = x @ sep @ join sep (y # ys)"

text \<open>\<^verbatim>\<open>str(n)\<close> for an integer.\<close>

definition digit_char :: "nat \<Rightarrow> char" where
  "digit_char d = ''0123456789'' ! d"

fun str_nat :: "nat \<Rightarrow> string" where
  "str_nat n = (if n < 10 then [digit_char n] else str_nat (n div 10) @ [digit_char (n mod 10)])"

definition str_int :: "int \<Rightarrow> string" where
  "str_int i = (if i < 0 then CHR ''-'' # str_nat (nat (- i)) else str_nat (nat i))"

text \<open>What an f-string prints for a value that is a string or \<^verbatim>\<open>None\<close>.\<close>

definition str_opt :: "string option \<Rightarrow> string" where
  "str_opt v = (case v of None \<Rightarrow> ''None'' | Some s \<Rightarrow> s)"

text \<open>Python truthiness of a JSON value (\<^verbatim>\<open>if not x\<close>).\<close>

fun py_truthy :: "json \<Rightarrow> bool" where
  "py_truthy JNull = False"
| "py_truthy (JBool b) = b"
| "py_truthy (JInt i) = (i \<noteq> 0)"
| "py_truthy (JStr s) = (s \<noteq> [])"
| "py_truthy (JArr xs) = (xs \<noteq> [])"
| "py_truthy (JObj kvs) = (kvs \<noteq> [])"


text \<open>
  \<^verbatim>\<open>len(x)\<close>: a string, a list and a \<^verbatim>\<open>dict\<close> have a length; on any other
  value the call raises \<^verbatim>\<open>TypeError\<close>.
\<close>

definition py_len :: "json \<Rightarrow> exn + nat" where
  "py_len v =
     (case v of
        JStr s \<Rightarrow> Inr (length s)
      | JArr xs \<Rightarrow> Inr (length xs)
      | JObj kvs \<Rightarrow> Inr (length kvs)
      | JNull \<Rightarrow> Inl (Exn (''object of type '' @ sq @ ''NoneType'' @ sq @ '' has no len()''))
      | JBool b \<Rightarrow> Inl (Exn (''object of type '' @ sq @ ''bool'' @ sq @ '' has no len()''))
      | JInt i \<Rightarrow> Inl (Exn (''object of type '' @ sq @ ''int'' @ sq @ '' has no len()'')))"


section \<open>Map-reduce synthesizer (answer\_synthesizer.py)\<close>

text \<open>
  \<^verbatim>\<open>json.dumps\<close> and \<^verbatim>\<open>textwrap.wrap(text, width, break_long_words=True,
  replace_whitespace=False)\<close> are library code and parameters of the model.
  \<^verbatim>\<open>time.sleep\<close> is left out.
\<close>

type_synonym dumps = "json \<Rightarrow> string"
type_synonym wrap = "string \<Rightarrow> nat \<Rightarrow> string list"

text \<open>
  A retrieved section: the columns \<^verbatim>\<open>text\<close> and \<^verbatim>\<open>filename\<close> of a row, each a
  string or \<^verbatim>\<open>None\<close>. An item of the extraction checklist has the keys
  \<^verbatim>\<open>task\<close> and \<^verbatim>\<open>type\<close>. A synthesis input is the dictionary the map step
  builds for one document.
\<close>

record document =
  doc_text :: "string option"
  doc_filename :: "string option"

record checklist_item =
  task :: string
  item_type :: string

record synthesis_input =
  si_text :: string
  si_filename :: "string option"
  is_summary :: bool

definition MAX_CHARS_PER_CHUNK :: nat where
  "MAX_CHARS_PER_CHUNK = 180000"

text \<open>\<^verbatim>\<open>len(text)\<close> raises \<^verbatim>\<open>TypeError\<close> when the text is \<^verbatim>\<open>None\<close>.\<close>

definition split_text_into_chunks :: "wrap \<Rightarrow> string option \<Rightarrow> nat \<Rightarrow> exn + string list" where
  "split_text_into_chunks textwrap_wrap text chunk_size =
     (case text of
        None \<Rightarrow> Inl (Exn (''object of type '' @ sq @ ''NoneType'' @ sq @ '' has no len()''))
      | Some t \<Rightarrow>
          Inr (if length t \<le> chunk_size then [t] else textwrap_wrap t chunk_size))"

text \<open>
  The dictionary comprehension of the error branch keeps one entry per distinct task,
  at the place of its first occurrence.
\<close>

definition extract_table_data :: "llm \<Rightarrow> dumps \<Rightarrow> string \<Rightarrow> string list \<Rightarrow> string" where
  "extract_table_data client json_dumps text tasks =
     (if tasks = [] then []
      else case client (Table_extraction tasks text) of
             Inr content \<Rightarrow> content
           | Inl e \<Rightarrow>
               json_dumps (JObj (map (\<lambda>t. (t, JStr ''Extraction Error''))
                                     (rev (remdups (rev tasks))))))"

definition summarize_narrative :: "llm \<Rightarrow> string \<Rightarrow> string list \<Rightarrow> string \<Rightarrow> string" where
  "summarize_narrative client text tasks filename =
     (if tasks = [] then []
      else case client (Narrative_summary tasks text filename) of
             Inr content \<Rightarrow> content
           | Inl e \<Rightarrow> ''Could not generate narrative summary due to an error.'')"

text \<open>The body of the inner loop of \<^verbatim>\<open>map_summarize_sections\<close>: chunk \<open>j\<close> of \<open>n\<close>.\<close>

definition map_chunk ::
  "llm \<Rightarrow> dumps \<Rightarrow> string list \<Rightarrow> string list \<Rightarrow> string option \<Rightarrow> nat \<Rightarrow> nat \<times> string \<Rightarrow> string" where
  "map_chunk client json_dumps table_tasks narrative_tasks filename n jc =
     (let j = fst jc; chunk = snd jc;
          chunk_log_name = str_opt filename @ '' (part '' @ str_nat j @ ''/'' @ str_nat n @ '')'';
          table_results_json = extract_table_data client json_dumps chunk table_tasks;
          narrative_summary = summarize_narrative client chunk narrative_tasks chunk_log_name
      in (if table_results_json \<noteq> []
          then ''Extracted Data:'' @ nl @ table_results_json @ nl @ nl else [])
         @ (if narrative_summary \<noteq> []
            then ''Narrative Summary:'' @ nl @ narrative_summary else []))"

text \<open>The body of the outer loop: one document.\<close>

definition map_document ::
  "llm \<Rightarrow> wrap \<Rightarrow> dumps \<Rightarrow> string list \<Rightarrow> string list \<Rightarrow> document \<Rightarrow> exn + synthesis_input" where
  "map_document client textwrap_wrap json_dumps table_tasks narrative_tasks doc =
     (case split_text_into_chunks textwrap_wrap (doc_text doc) MAX_CHARS_PER_CHUNK of
        Inl e \<Rightarrow> Inl e
      | Inr chunks \<Rightarrow>
          (let all_chunk_results =
                 map (map_chunk client json_dumps table_tasks narrative_tasks
                        (doc_filename doc) (length chunks))
                     (zip [1 ..< Suc (length chunks)] chunks);
               final_doc_summary = join (nl @ nl @ ''---'' @ nl @ nl) all_chunk_results
           in Inr \<lparr>si_text = final_doc_summary, si_filename = doc_filename doc,
                   is_summary = True\<rparr>))"

text \<open>The outer loop; an exception in one document ends the whole call.\<close>

fun map_documents ::
  "llm \<Rightarrow> wrap \<Rightarrow> dumps \<Rightarrow> string list \<Rightarrow> string list \<Rightarrow> document list
     \<Rightarrow> exn + synthesis_input list" where
  "map_documents client textwrap_wrap json_dumps table_tasks narrative_tasks [] = Inr []"
| "map_documents client textwrap_wrap json_dumps table_tasks narrative_tasks (doc # docs) =
     (case map_document client textwrap_wrap json_dumps table_tasks narrative_tasks doc of
        Inl e \<Rightarrow> Inl e
      | Inr summary \<Rightarrow>
          (case map_documents client textwrap_wrap json_dumps table_tasks narrative_tasks docs of
             Inl e \<Rightarrow> Inl e
           | Inr batch_summaries \<Rightarrow> Inr (summary # batch_summaries)))"

definition map_summarize_sections ::
  "llm \<Rightarrow> wrap \<Rightarrow> dumps \<Rightarrow> document list \<Rightarrow> string \<Rightarrow> checklist_item list
     \<Rightarrow> exn + synthesis_input list" where
  "map_summarize_sections client textwrap_wrap json_dumps documents user_query extraction_checklist =
     (let table_tasks =
            map task (filter (\<lambda>item. item_type item = ''table_extraction'') extraction_checklist);
          narrative_tasks =
            map task (filter (\<lambda>item. item_type item = ''narrative_summary'') extraction_checklist)
      in map_documents client textwrap_wrap json_dumps table_tasks narrative_tasks documents)"

text \<open>The context string of the reduce step.\<close>

definition context_part :: "synthesis_input \<Rightarrow> string" where
  "context_part res =
     ''--- START: Source from '' @ sq @ str_opt (si_filename res) @ sq @ '' ---'' @ nl
     @ si_text res @ nl
     @ ''--- END: Source from '' @ sq @ str_opt (si_filename res) @ sq @ '' ---''"

definition synthesis_context :: "synthesis_input list \<Rightarrow> string" where
  "synthesis_context results = join (nl @ nl) (map context_part results)"

text \<open>
  \<^verbatim>\<open>sorted(list(set([r.get('filename') for r in results if r.get('filename')])))\<close>:
  the filenames that are neither \<^verbatim>\<open>None\<close> nor empty, without duplicates, in
  ascending order of Python's string comparison.
\<close>

definition source_filenames :: "synthesis_input list \<Rightarrow> string list" where
  "source_filenames results =
     sort (remdups (concat (map (\<lambda>r. case si_filename r of
                                        None \<Rightarrow> []
                                      | Some name \<Rightarrow> (if name = [] then [] else [name]))
                                results)))"

definition sources_section :: "synthesis_input list \<Rightarrow> string" where
  "sources_section results =
     nl @ nl @ ''Sources:'' @ nl
     @ (if source_filenames results \<noteq> []
        then join nl (map (\<lambda>name. ''- '' @ name) (source_filenames results))
        else ''- None'')"

text \<open>The reduce step has no \<^verbatim>\<open>try\<close>: an exception of the LLM call propagates.\<close>

definition reduce_and_synthesize_answer ::
  "llm \<Rightarrow> string \<Rightarrow> synthesis_input list \<Rightarrow> string \<Rightarrow> exn + string" where
  "reduce_and_synthesize_answer llm_client query results analysis_goal =
     (if results = [] then Inr ''No information was found that matched the query.''
      else case llm_client (Final_synthesis query analysis_goal (synthesis_context results)) of
             Inl e \<Rightarrow> Inl e
           | Inr llm_answer \<Rightarrow> Inr (llm_answer @ sources_section results))"

text \<open>
  The sentence the synthesis prompt asks the LLM to end its response with.
\<close>

definition disclaimer :: string where
  "disclaimer = ''*Disclaimer: RiskGPT may hallucinate; please independently verify all insights before use in production or decision-making contexts.*''"


section \<open>Orchestrator (query\_agent.py)\<close>

definition MAX_CONTEXT_CHARACTERS :: nat where
  "MAX_CONTEXT_CHARACTERS = 180000"

definition guided_map_reduce ::
  "llm \<Rightarrow> wrap \<Rightarrow> dumps \<Rightarrow> document list \<Rightarrow> string \<Rightarrow> checklist_item list
     \<Rightarrow> exn + synthesis_input list" where
  "guided_map_reduce llm_client textwrap_wrap json_dumps documents user_query extraction_checklist =
     (let total_chars =
            sum_list (map (\<lambda>doc. length (case doc_text doc of None \<Rightarrow> [] | Some t \<Rightarrow> t))
                          documents)
      in if total_chars > MAX_CONTEXT_CHARACTERS
         then map_summarize_sections llm_client textwrap_wrap json_dumps documents user_query
                extraction_checklist
         else map_summarize_sections llm_client textwrap_wrap json_dumps documents user_query
                extraction_checklist)"

text \<open>
  The plan dictionary that \<^verbatim>\<open>create_plan\<close> returns. \<^verbatim>\<open>sections_to_retrieve\<close> is
  the value the LLM gave, any JSON value; a missing key reads as \<open>JNull\<close>.
\<close>

record plan =
  plan_type :: string
  analysis_goal :: string
  cypher_query :: "string option"
  sections_to_retrieve :: json
  extraction_checklist :: "checklist_item list"

text \<open>
  The calls that \<^verbatim>\<open>run\<close> makes after planning, in order. \<^verbatim>\<open>run\<close> has no other
  call: the critic is not invoked on any path.
\<close>

datatype call =
    Call_run_cypher_query string params
  | Call_guided_map_reduce
  | Call_reduce_and_synthesize_answer

definition no_plan_message :: string where
  "no_plan_message = ''I'' @ sq @ ''m so'' @ ''rry, I couldn'' @ sq @ ''t create a plan to answer your query. This could be because no relevant documents were found for the entities you mentioned. Please try rephrasing.''"

definition no_metadata_query_message :: string where
  "no_metadata_query_message = ''I identified this as a metadata query, but failed to construct the database query.''"

definition no_sections_message :: string where
  "no_sections_message = ''I created a plan, but it did not specify which document sections to analyze. Please try your query again.''"

definition no_text_message :: string where
  "no_text_message = ''I found the right documents, but I couldn'' @ sq @ ''t extract any text from them. The data might be missing or in an unexpected format.''"

definition unknown_plan_message :: string where
  "unknown_plan_message = ''I encountered an unknown plan type and could not proceed.''"

definition unexpected_error_message :: "exn \<Rightarrow> string" where
  "unexpected_error_message e =
     (case e of Exn msg \<Rightarrow>
        ''I encountered an unexpected error while processing your query: '' @ msg)"

definition retrieval_query :: string where
  "retrieval_query =
     nl @ replicate 16 CHR '' '' @ ''MATCH (s:Section) WHERE id(s) IN $section_ids''
     @ nl @ replicate 16 CHR '' '' @ ''RETURN s.text AS text, s.name as filename''
     @ nl @ replicate 16 CHR '' ''"

text \<open>
  A row of the retrieval query read as a section; \<^verbatim>\<open>s.text\<close> and \<^verbatim>\<open>s.name\<close> are
  string properties of the graph, and any other value is read as \<^verbatim>\<open>None\<close>.
\<close>

definition str_or_none :: "json option \<Rightarrow> string option" where
  "str_or_none v = (case v of Some (JStr s) \<Rightarrow> Some s | _ \<Rightarrow> None)"

definition document_of_row :: "row \<Rightarrow> document" where
  "document_of_row r =
     \<lparr>doc_text = str_or_none (map_of r ''text''),
      doc_filename = str_or_none (map_of r ''filename'')\<rparr>"

text \<open>
  \<^verbatim>\<open>Neo4jQueryAgent.run\<close>. The planner is a component of the agent and a parameter
  here: it raises, returns \<^verbatim>\<open>None\<close> or returns a plan. The result is the answer
  string and the calls made after planning. Before the retrieval query the method logs
  \<^verbatim>\<open>len(section_ids)\<close>; when that raises, the outer \<^verbatim>\<open>except\<close> returns the
  message of the unexpected error.
\<close>

definition run ::
  "(string \<Rightarrow> exn + plan option) \<Rightarrow> session \<Rightarrow> llm \<Rightarrow> wrap \<Rightarrow> dumps \<Rightarrow> dumps \<Rightarrow> string
     \<Rightarrow> string \<times> call list" where
  "run create_plan session llm_client textwrap_wrap json_dumps json_dumps_indent2 query =
     (case create_plan query of
        Inl e \<Rightarrow> (unexpected_error_message e, [])
      | Inr None \<Rightarrow> (no_plan_message, [])
      | Inr (Some plan) \<Rightarrow>
          if plan_type plan = ''metadata'' then
            (case cypher_query plan of
               None \<Rightarrow> (no_metadata_query_message, [])
             | Some cq \<Rightarrow>
                 if cq = [] then (no_metadata_query_message, [])
                 else (json_dumps_indent2 (JArr (map JObj (run_cypher_query session cq []))),
                       [Call_run_cypher_query cq []]))
          else if plan_type plan = ''content_extraction'' then
            (let section_ids = sections_to_retrieve plan in
             if \<not> py_truthy section_ids then (no_sections_message, [])
             else
               (case py_len section_ids of
                  Inl e \<Rightarrow> (unexpected_error_message e, [])
                | Inr number_of_sections \<Rightarrow>
               (let ps = [(''section_ids'', section_ids)];
                    results = run_cypher_query session retrieval_query ps
                in if results = [] then (no_text_message, [Call_run_cypher_query retrieval_query ps])
                   else
                     (case guided_map_reduce llm_client textwrap_wrap json_dumps
                             (map document_of_row results) query (extraction_checklist plan) of
                        Inl e \<Rightarrow>
                          (unexpected_error_message e,
                           [Call_run_cypher_query retrieval_query ps, Call_guided_map_reduce])
                      | Inr synthesis_input \<Rightarrow>
                          (case reduce_and_synthesize_answer llm_client query synthesis_input
                                  (analysis_goal plan) of
                             Inl e \<Rightarrow>
                               (unexpected_error_message e,
                                [Call_run_cypher_query retrieval_query ps, Call_guided_map_reduce,
                                 Call_reduce_and_synthesize_answer])
                           | Inr final_answer \<Rightarrow>
                               (final_answer,
                                [Call_run_cypher_query retrieval_query ps, Call_guided_map_reduce,
                                 Call_reduce_and_synthesize_answer]))))))
          else (unknown_plan_message, []))"


section \<open>Retrieval query builder (cypher\_builder.py)\<close>

text \<open>
  The plan dictionary given to the builder; a missing list reads as \<open>[]\<close>
  (\<^verbatim>\<open>plan.get('companies', [])\<close>), a missing \<^verbatim>\<open>concept\<close> or
  \<^verbatim>\<open>search_type\<close> as \<open>None\<close>.
\<close>

record search_plan =
  search_type :: "string option"
  concept :: "string option"
  companies :: "string list"
  years :: "int list"
  quarters :: "string list"
  sections :: "int list"
  excluded_docs :: "string list"

text \<open>
  What a builder method does: the query string it returns, the values of \<open>k\<close> of its
  calls of \<^verbatim>\<open>vector_db.search\<close>, and the lines it logs.
\<close>

datatype level = INFO | WARNING | ERROR

record built =
  built_query :: string
  vector_searches :: "nat list"
  log_lines :: "(level \<times> string) list"

text \<open>\<^verbatim>\<open>"[" + ", ".join(f"'{c}'" for c in xs) + "]"\<close> and the same with \<^verbatim>\<open>str(y)\<close>.\<close>

definition quoted_list :: "string list \<Rightarrow> string" where
  "quoted_list xs = ''['' @ join '', '' (map (\<lambda>c. sq @ c @ sq) xs) @ '']''"

definition int_list :: "int list \<Rightarrow> string" where
  "int_list ys = ''['' @ join '', '' (map str_int ys) @ '']''"

definition return_clause :: string where
  "return_clause = ''RETURN s.text AS text, s.filename AS filename''"

definition direct_match_clause :: string where
  "direct_match_clause = ''MATCH (c:Company)-[:HAS_YEAR]->(y:Year)-[:HAS_QUARTER]->(q:Quarter)-[:HAS_DOC]->(d:Document)-[:HAS_SECTION]->(s:Section)''"

text \<open>The string is the query after \<^verbatim>\<open>strip()\<close>; the inner lines keep their indentation.\<close>

definition build_comprehensive_query :: "search_plan \<Rightarrow> built" where
  "build_comprehensive_query plan =
     (if companies plan = [] then
        \<lparr>built_query = [], vector_searches = [],
         log_lines = [(INFO, ''[Comprehensive Search] Building comprehensive Cypher query.''),
                      (ERROR, ''Comprehensive search requires a company.'')]\<rparr>
      else
        \<lparr>built_query =
           direct_match_clause
           @ nl @ replicate 8 CHR '' '' @ ''WHERE c.name IN '' @ quoted_list (companies plan)
           @ nl @ replicate 8 CHR '' '' @ ''WITH s, d, y, q''
           @ nl @ replicate 8 CHR '' '' @ ''ORDER BY y.value DESC, q.label DESC''
           @ nl @ replicate 8 CHR '' '' @ ''LIMIT 10''
           @ nl @ replicate 8 CHR '' '' @ return_clause,
         vector_searches = [],
         log_lines = [(INFO, ''[Comprehensive Search] Building comprehensive Cypher query.'')]\<rparr>)"

definition direct_where_parts :: "search_plan \<Rightarrow> string list" where
  "direct_where_parts plan =
     (if companies plan \<noteq> [] then [''c.name IN '' @ quoted_list (companies plan)] else [])
     @ (if years plan \<noteq> [] then [''y.value IN '' @ int_list (years plan)] else [])
     @ (if quarters plan \<noteq> [] then [''q.label IN '' @ quoted_list (quarters plan)] else [])
     @ (if sections plan \<noteq> [] then [''id(s) IN '' @ int_list (sections plan)] else [])"

definition build_direct_query :: "search_plan \<Rightarrow> built" where
  "build_direct_query plan =
     (let where_parts = direct_where_parts plan;
          where_clause = (if where_parts \<noteq> [] then ''WHERE '' @ join '' AND '' where_parts else [])
      in \<lparr>built_query = direct_match_clause @ '' '' @ where_clause @ '' '' @ return_clause,
           vector_searches = [],
           log_lines = [(INFO, ''[Direct Search] Building direct Cypher query.'')]\<rparr>)"

definition hybrid_where_parts :: "string list \<Rightarrow> search_plan \<Rightarrow> string list" where
  "hybrid_where_parts section_ids plan =
     [''s.id IN '' @ quoted_list section_ids]
     @ (if companies plan \<noteq> [] then
          [''EXISTS { MATCH (s)<-[:HAS_SECTION]-(d:Document)<-[:HAS_DOC]-(q:Quarter)<-[:HAS_QUARTER]-(y:Year)<-[:HAS_YEAR]-(c:Company) WHERE c.name IN ''
           @ quoted_list (companies plan) @ '' }'']
        else [])
     @ (if years plan \<noteq> [] then
          [''EXISTS { MATCH (s)<-[:HAS_SECTION]-(d:Document)<-[:HAS_DOC]-(q:Quarter)<-[:HAS_QUARTER]-(y:Year) WHERE y.value IN ''
           @ int_list (years plan) @ '' }'']
        else [])
     @ (if quarters plan \<noteq> [] then
          [''EXISTS { MATCH (s)<-[:HAS_SECTION]-(d:Document)<-[:HAS_DOC]-(q:Quarter) WHERE q.label IN ''
           @ quoted_list (quarters plan) @ '' }'']
        else [])"

text \<open>
  The embedding model (\<^verbatim>\<open>model.encode\<close>) and the vector index
  (\<^verbatim>\<open>vector_db.search(embedding, k)\<close>, giving distances and section ids) are
  parameters. Section ids are the strings that the f-string prints for them.
\<close>

definition build_hybrid_query ::
  "(string \<Rightarrow> 'e) \<Rightarrow> ('e \<Rightarrow> nat \<Rightarrow> 'd list \<times> string list) \<Rightarrow> search_plan \<Rightarrow> built" where
  "build_hybrid_query encode vector_search plan =
     (case concept plan of
        None \<Rightarrow>
          \<lparr>built_query = [], vector_searches = [],
           log_lines = [(INFO, ''[Hybrid Search] Building hybrid query using FAISS.''),
                        (ERROR, ''Hybrid search failed: No '' @ sq @ ''concept'' @ sq
                                @ '' found in plan.'')]\<rparr>
      | Some semantic_query \<Rightarrow>
          if semantic_query = [] then
            \<lparr>built_query = [], vector_searches = [],
             log_lines = [(INFO, ''[Hybrid Search] Building hybrid query using FAISS.''),
                          (ERROR, ''Hybrid search failed: No '' @ sq @ ''concept'' @ sq
                                  @ '' found in plan.'')]\<rparr>
          else
            (let query_embedding = encode semantic_query;
                 section_ids = snd (vector_search query_embedding 20);
                 searching = [(INFO, ''[Hybrid Search] Building hybrid query using FAISS.''),
                              (INFO, ''Performing FAISS search for: '' @ sq @ semantic_query @ sq)]
             in if section_ids = [] then
                  \<lparr>built_query = [], vector_searches = [20],
                   log_lines = searching @ [(WARNING, ''FAISS search returned no results.'')]\<rparr>
                else
                  \<lparr>built_query =
                     ''MATCH (s:Section)'' @ '' ''
                     @ ''WHERE '' @ join '' AND '' (hybrid_where_parts section_ids plan)
                     @ '' '' @ return_clause,
                   vector_searches = [20],
                   log_lines = searching
                     @ [(INFO, ''FAISS search found '' @ str_nat (length section_ids)
                               @ '' relevant sections.'')]\<rparr>))"

definition build_query ::
  "(string \<Rightarrow> 'e) \<Rightarrow> ('e \<Rightarrow> nat \<Rightarrow> 'd list \<times> string list) \<Rightarrow> search_plan \<Rightarrow> built" where
  "build_query encode vector_search plan =
     (if search_type plan = Some ''Hybrid'' then build_hybrid_query encode vector_search plan
      else if search_type plan = Some ''Comprehensive'' then build_comprehensive_query plan
      else build_direct_query plan)"

text \<open>
  The legacy function \<^verbatim>\<open>generate_cypher_for_hybrid_search\<close>. It returns the query and
  its parameters; the query asks the vector index of the graph store for candidates.
  The argument \<^verbatim>\<open>top_k\<close> is not used by the body.
\<close>

record 'e hybrid_params =
  p_query_embedding :: 'e
  p_companies :: "string list"
  p_years :: "int list"
  p_quarters :: "string list"
  p_excluded_docs :: "string list"

definition legacy_call_clause :: string where
  "legacy_call_clause =
     nl @ ''    CALL db.index.vector.queryNodes('' @ sq @ ''section_embeddings''
        @ sq @ '', 50, $query_embedding)''
     @ nl @ ''    YIELD node AS s, score''
     @ nl @ ''    ''"

definition legacy_where_parts :: "search_plan \<Rightarrow> string list" where
  "legacy_where_parts analysis =
     (if companies analysis \<noteq> [] then [''c.name IN $companies''] else [])
     @ (if years analysis \<noteq> [] then [''y.value IN $years''] else [])
     @ (if quarters analysis \<noteq> [] then [''q.label IN $quarters''] else [])
     @ (if excluded_docs analysis \<noteq> [] then [''s.filename NOT IN $excluded_docs''] else [])"

definition generate_cypher_for_hybrid_search ::
  "search_plan \<Rightarrow> 'e \<Rightarrow> nat \<Rightarrow> string \<times> 'e hybrid_params" where
  "generate_cypher_for_hybrid_search analysis query_embedding top_k =
     (let ps = \<lparr>p_query_embedding = query_embedding, p_companies = companies analysis,
                p_years = years analysis, p_quarters = quarters analysis,
                p_excluded_docs = excluded_docs analysis\<rparr>;
          match_clause = ''MATCH (c:Company)-[:HAS_YEAR]->(y:Year)-[:HAS_QUARTER]->(q:Quarter)-[:HAS_DOC]->(d:Document)-[:HAS_SECTION]->(s)'';
          where_parts = legacy_where_parts analysis;
          where_clause = (if where_parts \<noteq> [] then ''WHERE '' @ join '' AND '' where_parts else []);
          return_clause_score = ''RETURN s.text AS text, s.filename AS filename, score'';
          limit_clause = ''LIMIT 10''
      in (legacy_call_clause @ '' '' @ match_clause @ '' '' @ where_clause @ '' ''
          @ return_clause_score @ '' '' @ limit_clause, ps))"


section \<open>Query planner (improved\_query\_planner.py)\<close>

subsection \<open>Python operations on parsed JSON\<close>

text \<open>
  \<^verbatim>\<open>data.get(key, default)\<close>: only a \<^verbatim>\<open>dict\<close> has \<^verbatim>\<open>get\<close>; on any other
  value the call raises \<^verbatim>\<open>AttributeError\<close> (\<open>None\<close>). The keys of a parsed object
  are distinct.
\<close>

definition py_get :: "json \<Rightarrow> string \<Rightarrow> json \<Rightarrow> json option" where
  "py_get data key dflt =
     (case data of
        JObj kvs \<Rightarrow> Some (case map_of kvs key of Some v \<Rightarrow> v | None \<Rightarrow> dflt)
      | _ \<Rightarrow> None)"

text \<open>
  \<^verbatim>\<open>for x in value\<close>: a list gives its elements, a string its characters, a
  \<^verbatim>\<open>dict\<close> its keys; anything else raises \<^verbatim>\<open>TypeError\<close> (\<open>None\<close>).
\<close>

definition py_iter :: "json \<Rightarrow> json list option" where
  "py_iter v =
     (case v of
        JArr xs \<Rightarrow> Some xs
      | JStr s \<Rightarrow> Some (map (\<lambda>c. JStr [c]) s)
      | JObj kvs \<Rightarrow> Some (map (\<lambda>kv. JStr (fst kv)) kvs)
      | _ \<Rightarrow> None)"

text \<open>\<^verbatim>\<open>set(xs)\<close> raises \<^verbatim>\<open>TypeError\<close> on a list or a \<^verbatim>\<open>dict\<close> element.\<close>

definition hashable :: "json \<Rightarrow> bool" where
  "hashable v = (case v of JArr xs \<Rightarrow> False | JObj kvs \<Rightarrow> False | _ \<Rightarrow> True)"

text \<open>
  \<^verbatim>\<open>v in xs\<close> compares with \<^verbatim>\<open>==\<close>. Against a string only an equal string is
  equal; against an integer an equal integer is, and so are \<^verbatim>\<open>True\<close> (for 1) and
  \<^verbatim>\<open>False\<close> (for 0).
\<close>

definition py_eq_str :: "json \<Rightarrow> string \<Rightarrow> bool" where
  "py_eq_str v s = (case v of JStr t \<Rightarrow> t = s | _ \<Rightarrow> False)"

definition py_eq_int :: "json \<Rightarrow> int \<Rightarrow> bool" where
  "py_eq_int v n =
     (case v of
        JInt i \<Rightarrow> i = n
      | JBool b \<Rightarrow> (if b then 1 else 0) = n
      | _ \<Rightarrow> False)"

definition py_in_strs :: "json \<Rightarrow> string list \<Rightarrow> bool" where
  "py_in_strs v xs = list_ex (py_eq_str v) xs"

definition py_in_ints :: "json \<Rightarrow> int list \<Rightarrow> bool" where
  "py_in_ints v xs = list_ex (py_eq_int v) xs"

text \<open>\<^verbatim>\<open>str.strip()\<close>, \<^verbatim>\<open>str.split(',')\<close>, \<^verbatim>\<open>str.replace(c, '')\<close> and
  \<^verbatim>\<open>str.upper()\<close> on ASCII text.\<close>

definition is_space :: "char \<Rightarrow> bool" where
  "is_space c =
     (c \<in> set [CHR 0x09, CHR 0x0A, CHR 0x0B, CHR 0x0C, CHR 0x0D,
               CHR 0x1C, CHR 0x1D, CHR 0x1E, CHR 0x1F, CHR 0x20])"

definition strip :: "string \<Rightarrow> string" where
  "strip s = rev (dropWhile is_space (rev (dropWhile is_space s)))"

fun split_on :: "char \<Rightarrow> string \<Rightarrow> string list" where
  "split_on c [] = [[]]"
| "split_on c (x # xs) =
     (if x = c then [] # split_on c xs
      else (case split_on c xs of
              [] \<Rightarrow> [[x]]
            | y # ys \<Rightarrow> (x # y) # ys))"

definition remove_char :: "char \<Rightarrow> string \<Rightarrow> string" where
  "remove_char c s = filter (\<lambda>x. x \<noteq> c) s"

definition upper_char :: "char \<Rightarrow> char" where
  "upper_char c =
     (case map_of (zip ''abcdefghijklmnopqrstuvwxyz'' ''ABCDEFGHIJKLMNOPQRSTUVWXYZ'') c of
        Some u \<Rightarrow> u
      | None \<Rightarrow> c)"

definition upper :: "string \<Rightarrow> string" where
  "upper s = map upper_char s"

text \<open>
  \<^verbatim>\<open>re.search(r'\{.*\}', raw_response, re.DOTALL)\<close>: the match starts at the first
  opening brace and, the star being greedy and the dot matching every character, ends at
  the last closing brace after it.
\<close>

definition regex_json_object :: "string \<Rightarrow> string option" where
  "regex_json_object s =
     (let from_brace = dropWhile (\<lambda>c. c \<noteq> CHR ''{'') s
      in if from_brace = [] then None
         else (let body = rev (dropWhile (\<lambda>c. c \<noteq> CHR ''}'') (rev (tl from_brace)))
               in if body = [] then None else Some (CHR ''{'' # body)))"

text \<open>
  \<^verbatim>\<open>re.match(r'^Q[1-4]$', q, re.IGNORECASE)\<close>: the letter in either case, one digit
  from 1 to 4, and then the end of the string or one newline that ends the string.
\<close>

definition quarter_match :: "string \<Rightarrow> bool" where
  "quarter_match q =
     (case q of
        [c, d] \<Rightarrow> (c = CHR ''Q'' \<or> c = CHR ''q'') \<and> d \<in> set ''1234''
      | [c, d, e] \<Rightarrow> (c = CHR ''Q'' \<or> c = CHR ''q'') \<and> d \<in> set ''1234'' \<and> e = CHR 0x0A
      | _ \<Rightarrow> False)"


subsection \<open>Planner log\<close>

text \<open>
  The log lines of the extraction methods, by kind: the raw response (INFO), the
  warning that the response was not valid JSON, the warning that lists the returned
  companies that are not in the master list, and the error of the \<^verbatim>\<open>except\<close> branch.
\<close>

datatype log_entry =
    Log_raw_response string
  | Log_invalid_json
  | Log_dropped_companies "json set"
  | Log_extraction_error


subsection \<open>Parsing an LLM response\<close>

text \<open>
  The inner \<^verbatim>\<open>try\<close> of \<^verbatim>\<open>_llm_extract_company\<close> and
  \<^verbatim>\<open>_llm_extract_context_entities\<close> (the same lines in both): parse the response; if
  that raises \<^verbatim>\<open>JSONDecodeError\<close>, warn and parse the text the regular expression
  finds. \<open>None\<close> is an exception that reaches the outer \<^verbatim>\<open>except\<close>.
\<close>

definition loads_or_extract :: "loads \<Rightarrow> string \<Rightarrow> json option \<times> log_entry list" where
  "loads_or_extract json_loads raw_response =
     (case json_loads raw_response of
        Some data \<Rightarrow> (Some data, [])
      | None \<Rightarrow>
          (case regex_json_object raw_response of
             None \<Rightarrow> (None, [Log_invalid_json])
           | Some json_str \<Rightarrow> (json_loads json_str, [Log_invalid_json])))"

definition sanitize_llm_list_output :: "loads \<Rightarrow> json \<Rightarrow> json" where
  "sanitize_llm_list_output json_loads v =
     (case v of
        JArr xs \<Rightarrow> JArr xs
      | JStr s \<Rightarrow>
          (case json_loads s of
             Some parsed \<Rightarrow> parsed
           | None \<Rightarrow>
               (let cleaned_value =
                      remove_char (CHR 0x27) (remove_char (CHR 0x22)
                        (remove_char CHR '']'' (remove_char CHR ''['' (strip s))))
                in if cleaned_value = [] then JArr []
                   else JArr (map (\<lambda>item. JStr (strip item)) (split_on CHR '','' cleaned_value))))
      | _ \<Rightarrow> JArr [])"


subsection \<open>Company grounding\<close>

definition llm_extract_company ::
  "llm \<Rightarrow> loads \<Rightarrow> string \<Rightarrow> string list \<Rightarrow> json list \<times> log_entry list" where
  "llm_extract_company llm_client json_loads query all_companies =
     (case llm_client (Company_extraction query all_companies) of
        Inl e \<Rightarrow> ([], [Log_extraction_error])
      | Inr raw_response \<Rightarrow>
          (let parsed = loads_or_extract json_loads raw_response;
               logged = Log_raw_response raw_response # snd parsed;
               failed = ([], logged @ [Log_extraction_error])
           in case fst parsed of
                None \<Rightarrow> failed
              | Some data \<Rightarrow>
                  (case py_get data ''companies'' (JArr []) of
                     None \<Rightarrow> failed
                   | Some companies_value \<Rightarrow>
                       (case py_iter companies_value of
                          None \<Rightarrow> failed
                        | Some found_companies \<Rightarrow>
                            (let valid_companies =
                                   filter (\<lambda>c. py_in_strs c all_companies) found_companies
                             in if length found_companies \<noteq> length valid_companies then
                                  (if list_all hashable found_companies then
                                     (valid_companies,
                                      logged @ [Log_dropped_companies
                                                  (set found_companies - set valid_companies)])
                                   else failed)
                                else (valid_companies, logged))))))"


subsection \<open>Per-company context grounding\<close>

text \<open>
  The rows of the focused-data query are (year, quarter, document type).
  \<^verbatim>\<open>actual_data\<close> is the nested dictionary year \<open>\<rightarrow>\<close> quarter \<open>\<rightarrow>\<close> document types that
  \<^verbatim>\<open>setdefault(...).setdefault(...).append(...)\<close> builds, in insertion order.
\<close>

type_synonym actual_data = "(int \<times> (string \<times> string list) list) list"

fun add_doc :: "string \<Rightarrow> string \<Rightarrow> (string \<times> string list) list \<Rightarrow> (string \<times> string list) list" where
  "add_doc quarter doc_type [] = [(quarter, [doc_type])]"
| "add_doc quarter doc_type ((q, ds) # rest) =
     (if q = quarter then (q, ds @ [doc_type]) # rest
      else (q, ds) # add_doc quarter doc_type rest)"

fun add_record :: "int \<Rightarrow> string \<Rightarrow> string \<Rightarrow> actual_data \<Rightarrow> actual_data" where
  "add_record year quarter doc_type [] = [(year, [(quarter, [doc_type])])]"
| "add_record year quarter doc_type ((y, qs) # rest) =
     (if y = year then (y, add_doc quarter doc_type qs) # rest
      else (y, qs) # add_record year quarter doc_type rest)"

definition get_company_focused_data :: "(int \<times> string \<times> string) list \<Rightarrow> actual_data" where
  "get_company_focused_data result =
     foldl (\<lambda>focused_data record. add_record (fst record) (fst (snd record)) (snd (snd record))
                                     focused_data)
           [] result"

definition available_years :: "actual_data \<Rightarrow> int list" where
  "available_years company_data = map fst company_data"

definition available_doc_types :: "actual_data \<Rightarrow> string list" where
  "available_doc_types company_data =
     sort (remdups (concat (map (\<lambda>year_data. concat (map snd (snd year_data))) company_data)))"


record context_entities =
  ctx_years :: "json list"
  ctx_quarters :: "string list"
  ctx_document_types :: "json list"

definition empty_context_entities :: context_entities where
  "empty_context_entities = \<lparr>ctx_years = [], ctx_quarters = [], ctx_document_types = []\<rparr>"

text \<open>
  The values a comprehension of \<^verbatim>\<open>validated_data\<close> runs over:
  \<^verbatim>\<open>for x in self._sanitize_llm_list_output(data.get(key, []))\<close>. \<open>None\<close> when
  \<^verbatim>\<open>data\<close> is not a \<^verbatim>\<open>dict\<close> or the sanitized value cannot be iterated.
\<close>

definition returned_list :: "loads \<Rightarrow> json \<Rightarrow> string \<Rightarrow> json list option" where
  "returned_list json_loads data key =
     (case py_get data key (JArr []) of
        None \<Rightarrow> None
      | Some v \<Rightarrow> py_iter (sanitize_llm_list_output json_loads v))"

text \<open>The dictionary \<^verbatim>\<open>validated_data\<close>; \<open>None\<close> when building it raises.\<close>

definition validated_data ::
  "loads \<Rightarrow> json \<Rightarrow> int list \<Rightarrow> string list \<Rightarrow> context_entities option" where
  "validated_data json_loads data years_available doc_types_available =
     (case py_get data ''years'' (JArr []) of
        None \<Rightarrow> None
      | Some years_value \<Rightarrow>
      (case py_get data ''quarters'' (JArr []) of
        None \<Rightarrow> None
      | Some quarters_value \<Rightarrow>
      (case py_get data ''document_types'' (JArr []) of
        None \<Rightarrow> None
      | Some doc_types_value \<Rightarrow>
      (case py_iter (sanitize_llm_list_output json_loads years_value) of
        None \<Rightarrow> None
      | Some ys \<Rightarrow>
      (case py_iter (sanitize_llm_list_output json_loads quarters_value) of
        None \<Rightarrow> None
      | Some qs \<Rightarrow>
      (case py_iter (sanitize_llm_list_output json_loads doc_types_value) of
        None \<Rightarrow> None
      | Some dts \<Rightarrow>
          Some \<lparr>ctx_years = filter (\<lambda>y. py_in_ints y years_available) ys,
                ctx_quarters =
                  concat (map (\<lambda>q. case q of
                                      JStr t \<Rightarrow> (if quarter_match t then [upper t] else [])
                                    | _ \<Rightarrow> [])
                              qs),
                ctx_document_types = filter (\<lambda>dt. py_in_strs dt doc_types_available) dts\<rparr>))))))"

definition llm_extract_context_entities ::
  "llm \<Rightarrow> loads \<Rightarrow> string \<Rightarrow> actual_data \<Rightarrow> context_entities \<times> log_entry list" where
  "llm_extract_context_entities llm_client json_loads query company_data =
     (case llm_client (Context_extraction query (available_years company_data)
                         (available_doc_types company_data)) of
        Inl e \<Rightarrow> (empty_context_entities, [Log_extraction_error])
      | Inr raw_response \<Rightarrow>
          (let parsed = loads_or_extract json_loads raw_response;
               logged = Log_raw_response raw_response # snd parsed;
               failed = (empty_context_entities, logged @ [Log_extraction_error])
           in case fst parsed of
                None \<Rightarrow> failed
              | Some data \<Rightarrow>
                  (case validated_data json_loads data (available_years company_data)
                          (available_doc_types company_data) of
                     None \<Rightarrow> failed
                   | Some v \<Rightarrow> (v, logged))))"

text \<open>The dictionary \<^verbatim>\<open>entities\<close> of \<^verbatim>\<open>_extract_entities_from_query\<close>.\<close>

record entities =
  ent_companies :: "string list"
  ent_years :: "json list"
  ent_quarters :: "string list"
  ent_document_types :: "json list"

definition extract_entities_from_query ::
  "llm \<Rightarrow> loads \<Rightarrow> string \<Rightarrow> string \<Rightarrow> (int \<times> string \<times> string) list \<Rightarrow> entities" where
  "extract_entities_from_query llm_client json_loads query company focused_rows =
     (let company_data = get_company_focused_data focused_rows;
          context = fst (llm_extract_context_entities llm_client json_loads query company_data)
      in \<lparr>ent_companies = [company], ent_years = ctx_years context,
           ent_quarters = ctx_quarters context,
           ent_document_types = ctx_document_types context\<rparr>)"


subsection \<open>Extraction guide and metadata classification\<close>

record section_info =
  sec_company :: string
  sec_doc_type :: string
  sec_section_name :: string
  sec_section_id :: int

definition readable_doc :: "section_info \<Rightarrow> string" where
  "readable_doc s =
     ''- Company: '' @ sec_company s @ '', Document: '' @ sec_doc_type s
     @ '', Section Name: '' @ sec_section_name s
     @ '', Section ID: '' @ str_int (sec_section_id s)"

text \<open>\<^verbatim>\<open>plan[key] = v\<close> on a \<^verbatim>\<open>dict\<close>: an existing key keeps its place.\<close>

fun dict_set :: "string \<Rightarrow> json \<Rightarrow> (string \<times> json) list \<Rightarrow> (string \<times> json) list" where
  "dict_set key v [] = [(key, v)]"
| "dict_set key v ((k, w) # kvs) =
     (if k = key then (k, v) # kvs else (k, w) # dict_set key v kvs)"

definition has_key :: "(string \<times> json) list \<Rightarrow> string \<Rightarrow> bool" where
  "has_key kvs key = (map_of kvs key \<noteq> None)"

definition valid_checklist_item :: "json \<Rightarrow> bool" where
  "valid_checklist_item item =
     (case item of
        JObj kvs \<Rightarrow> has_key kvs ''task'' \<and> has_key kvs ''type''
      | _ \<Rightarrow> False)"

text \<open>
  \<^verbatim>\<open>_llm_generate_extraction_guide\<close>. The whole body is one \<^verbatim>\<open>try\<close> whose
  \<^verbatim>\<open>except\<close> returns \<^verbatim>\<open>None\<close>; the response goes to \<^verbatim>\<open>json.loads\<close> directly.
  A parsed value that is not a \<^verbatim>\<open>dict\<close> ends in \<^verbatim>\<open>None\<close> too: either a key is
  missing or subscripting it with a string raises.
\<close>

definition llm_generate_extraction_guide ::
  "llm \<Rightarrow> loads \<Rightarrow> string \<Rightarrow> section_info list \<Rightarrow> json option" where
  "llm_generate_extraction_guide llm_client json_loads query available_sections =
     (case llm_client (Extraction_guide query (map readable_doc available_sections)) of
        Inl e \<Rightarrow> None
      | Inr raw_response \<Rightarrow>
          (case json_loads raw_response of
             None \<Rightarrow> None
           | Some (JObj kvs) \<Rightarrow>
               if has_key kvs ''analysis_goal'' \<and> has_key kvs ''sections_to_retrieve''
                  \<and> has_key kvs ''extraction_checklist''
               then (case map_of kvs ''extraction_checklist'' of
                       Some (JArr items) \<Rightarrow>
                         if list_all valid_checklist_item items
                         then Some (JObj (dict_set ''plan_type'' (JStr ''content_extraction'') kvs))
                         else None
                     | _ \<Rightarrow> None)
               else None
           | Some _ \<Rightarrow> None))"

text \<open>\<^verbatim>\<open>_llm_classify_and_build_metadata_query\<close>: again \<^verbatim>\<open>json.loads\<close> directly.\<close>

definition llm_classify_and_build_metadata_query :: "llm \<Rightarrow> loads \<Rightarrow> string \<Rightarrow> json option" where
  "llm_classify_and_build_metadata_query llm_client json_loads query =
     (case llm_client (Metadata_classification query) of
        Inl e \<Rightarrow> None
      | Inr raw_response \<Rightarrow> json_loads raw_response)"


section \<open>Example inputs\<close>

text \<open>
  Three LLM responses that are JSON texts, and the values \<^verbatim>\<open>json.loads\<close> gives for
  them. \<open>example_loads\<close> is \<^verbatim>\<open>json.loads\<close> on the texts the examples below
  parse: these three, and the same texts behind a sentence of prose, which are not JSON.
\<close>

definition dq :: string where
  "dq = [CHR 0x22]"

definition company_response :: string where
  "company_response = ''{'' @ dq @ ''companies'' @ dq @ '': ['' @ dq @ ''BAC'' @ dq @ '', ''
     @ dq @ ''TSLA'' @ dq @ '']}''"

definition company_response_json :: json where
  "company_response_json = JObj [(''companies'', JArr [JStr ''BAC'', JStr ''TSLA''])]"

definition context_response :: string where
  "context_response = ''{'' @ dq @ ''years'' @ dq @ '': [2025, 2019], ''
     @ dq @ ''quarters'' @ dq @ '': ['' @ dq @ ''q3'' @ dq @ ''], ''
     @ dq @ ''document_types'' @ dq @ '': ['' @ dq @ ''10-Q'' @ dq @ '', ''
     @ dq @ ''8-K'' @ dq @ '']}''"

definition context_response_json :: json where
  "context_response_json =
     JObj [(''years'', JArr [JInt 2025, JInt 2019]),
           (''quarters'', JArr [JStr ''q3'']),
           (''document_types'', JArr [JStr ''10-Q'', JStr ''8-K''])]"

definition plan_response :: string where
  "plan_response = ''{'' @ dq @ ''analysis_goal'' @ dq @ '': '' @ dq @ ''Net income of BAC.'' @ dq
     @ '', '' @ dq @ ''sections_to_retrieve'' @ dq @ '': [10], ''
     @ dq @ ''extraction_checklist'' @ dq @ '': []}''"

definition plan_response_json :: json where
  "plan_response_json =
     JObj [(''analysis_goal'', JStr ''Net income of BAC.''),
           (''sections_to_retrieve'', JArr [JInt 10]),
           (''extraction_checklist'', JArr [])]"

definition wrapped_plan_response :: string where
  "wrapped_plan_response = ''Here is the plan: '' @ plan_response"

definition wrapped_company_response :: string where
  "wrapped_company_response = ''Here you go: '' @ company_response"

definition example_loads :: loads where
  "example_loads s =
     (if s = company_response then Some company_response_json
      else if s = context_response then Some context_response_json
      else if s = plan_response then Some plan_response_json
      else None)"


text \<open>The quarter labels Q1 to Q4 with the letter in either case.\<close>

definition quarter_texts :: "string list" where
  "quarter_texts = [''Q1'', ''Q2'', ''Q3'', ''Q4'', ''q1'', ''q2'', ''q3'', ''q4'']"

text \<open>An LLM client that answers every request with one text, and one that raises.\<close>

definition llm_returning :: "string \<Rightarrow> llm" where
  "llm_returning content = (\<lambda>request. Inr content)"

definition llm_raising :: "string \<Rightarrow> llm" where
  "llm_raising msg = (\<lambda>request. Inl (Exn msg))"



text \<open>
  A vector index with two sections, and a Hybrid plan with a company filter. The
  embedding of a text is not looked at by this index.
\<close>

definition example_encode :: "string \<Rightarrow> nat list" where
  "example_encode semantic_query = map of_char semantic_query"

definition example_vector_search :: "nat list \<Rightarrow> nat \<Rightarrow> nat list \<times> string list" where
  "example_vector_search embedding k = (take k [3, 5], take k [''s1'', ''s2''])"

definition filtered_hybrid_plan :: search_plan where
  "filtered_hybrid_plan =
     \<lparr>search_type = Some ''Hybrid'', concept = Some ''stress testing'',
      companies = [''BAC''], years = [], quarters = [], sections = [], excluded_docs = []\<rparr>"

text \<open>A vector index that finds no candidate, as an index that is not loaded does.\<close>

definition empty_vector_search :: "nat list \<Rightarrow> nat \<Rightarrow> nat list \<times> string list" where
  "empty_vector_search embedding k = ([], [])"

text \<open>A plan with a truthy \<^verbatim>\<open>sections_to_retrieve\<close> that has no length.\<close>

definition plan_with_number_for_sections :: plan where
  "plan_with_number_for_sections =
     \<lparr>plan_type = ''content_extraction'', analysis_goal = ''Net income of BAC.'',
      cypher_query = None, sections_to_retrieve = JInt 5,
      extraction_checklist = [\<lparr>task = ''Net income'', item_type = ''table_extraction''\<rparr>]\<rparr>"

definition unfiltered_direct_plan :: search_plan where
  "unfiltered_direct_plan =
     \<lparr>search_type = Some ''Direct'', concept = None,
      companies = [], years = [], quarters = [], sections = [], excluded_docs = []\<rparr>"

text \<open>A content-extraction plan that names no section, and a graph session with one row.\<close>

definition plan_without_sections :: plan where
  "plan_without_sections =
     \<lparr>plan_type = ''content_extraction'', analysis_goal = ''Net income of BAC.'',
      cypher_query = None, sections_to_retrieve = JArr [],
      extraction_checklist = [\<lparr>task = ''Net income'', item_type = ''table_extraction''\<rparr>]\<rparr>"

definition planner_returning :: "plan \<Rightarrow> string \<Rightarrow> exn + plan option" where
  "planner_returning p = (\<lambda>query. Inr (Some p))"

definition session_returning :: "row list \<Rightarrow> session" where
  "session_returning rows = (\<lambda>query ps. Inr rows)"

definition session_raising :: "string \<Rightarrow> session" where
  "session_raising msg = (\<lambda>query ps. Inl (Exn msg))"

definition one_section_row :: row where
  "one_section_row = [(''text'', JStr ''Net income was 7.4 billion.''), (''filename'', JStr ''Item 2'')]"

definition wrap_whole :: wrap where
  "wrap_whole t width = [t]"

definition dumps_placeholder :: dumps where
  "dumps_placeholder v = ''{}''"

text \<open>Synthesis inputs from four documents, two of them with the same filename.\<close>

definition example_inputs :: "synthesis_input list" where
  "example_inputs =
     [\<lparr>si_text = ''Extracted Data: {}'', si_filename = Some ''b.txt'', is_summary = True\<rparr>,
      \<lparr>si_text = ''Narrative Summary: none'', si_filename = Some ''a.txt'', is_summary = True\<rparr>,
      \<lparr>si_text = ''Extracted Data: {}'', si_filename = Some ''b.txt'', is_summary = True\<rparr>,
      \<lparr>si_text = [], si_filename = None, is_summary = True\<rparr>]"


section \<open>Properties of the graph executor\<close>

text \<open>
  C10. \<^verbatim>\<open>run_cypher_query\<close> always returns a list of rows: the rows of the driver when
  it succeeds and the empty list when it raises. So a failed query and a query that
  matched nothing give the caller the same value.
\<close>

theorem run_cypher_query_total:
  "(session query ps = Inr rows \<longrightarrow> run_cypher_query session query ps = rows) \<and>
   (session query ps = Inl e \<longrightarrow> run_cypher_query session query ps = []) \<and>
   (session query ps = Inl e \<and> session' query ps = Inr [] \<longrightarrow>
      run_cypher_query session query ps = run_cypher_query session' query ps)"
  by (simp add: run_cypher_query_def)

theorem run_cypher_query_total_witness:
  "run_cypher_query (session_returning [one_section_row]) retrieval_query [] = [one_section_row] \<and>
   run_cypher_query (session_raising ''ServiceUnavailable'') retrieval_query [] = [] \<and>
   run_cypher_query (session_raising ''ServiceUnavailable'') retrieval_query []
     = run_cypher_query (session_returning []) retrieval_query []"
proof -
  have ok: "session_returning [one_section_row] retrieval_query [] = Inr [one_section_row]"
    and none: "session_returning [] retrieval_query [] = Inr []"
    by (simp_all add: session_returning_def)
  have err: "session_raising ''ServiceUnavailable'' retrieval_query []
               = Inl (Exn ''ServiceUnavailable'')"
    by (simp add: session_raising_def)
  from run_cypher_query_total
         [where session = "session_returning [one_section_row]" and query = retrieval_query
            and ps = "[]" and rows = "[one_section_row]"] ok
  have a: "run_cypher_query (session_returning [one_section_row]) retrieval_query []
             = [one_section_row]"
    by blast
  from run_cypher_query_total
         [where session = "session_raising ''ServiceUnavailable''" and query = retrieval_query
            and ps = "[]" and e = "Exn ''ServiceUnavailable''"
            and session' = "session_returning []"] err none
  have b: "run_cypher_query (session_raising ''ServiceUnavailable'') retrieval_query [] = []"
    and c: "run_cypher_query (session_raising ''ServiceUnavailable'') retrieval_query []
              = run_cypher_query (session_returning []) retrieval_query []"
    by blast+
  from a b c show ?thesis by blast
qed


section \<open>Properties of the critic\<close>

text \<open>
  C9. When the critic's LLM call raises, or its response does not parse as JSON, the
  critic returns the verdict ACCEPT with the note that it failed to evaluate.
\<close>

theorem critic_failure_accepts:
  "llm_client (Critic_evaluation user_query provided_context answer) = Inl e \<or>
   (llm_client (Critic_evaluation user_query provided_context answer) = Inr s \<and> json_loads s = None)
   \<Longrightarrow> evaluate_and_suggest_improvements llm_client json_loads user_query answer provided_context
       = JObj [(''decision'', JStr ''ACCEPT''),
               (''feedback'', JStr ''Critic failed to evaluate, accepting by default.'')]"
  by (auto simp: evaluate_and_suggest_improvements_def critic_fallback_def)

theorem critic_failure_accepts_witness:
  "evaluate_and_suggest_improvements (llm_raising ''rate limit exceeded'') example_loads
       ''BAC Q1 2025 net income'' ''Net income was 7.4 billion.'' ''Item 2''
     = JObj [(''decision'', JStr ''ACCEPT''),
             (''feedback'', JStr ''Critic failed to evaluate, accepting by default.'')] \<and>
   evaluate_and_suggest_improvements (llm_returning wrapped_plan_response) example_loads
       ''BAC Q1 2025 net income'' ''Net income was 7.4 billion.'' ''Item 2''
     = JObj [(''decision'', JStr ''ACCEPT''),
             (''feedback'', JStr ''Critic failed to evaluate, accepting by default.'')]"
proof -
  have raised: "llm_raising ''rate limit exceeded''
                  (Critic_evaluation ''BAC Q1 2025 net income'' ''Item 2''
                     ''Net income was 7.4 billion.'')
                = Inl (Exn ''rate limit exceeded'')"
    by (simp add: llm_raising_def)
  have returned: "llm_returning wrapped_plan_response
                    (Critic_evaluation ''BAC Q1 2025 net income'' ''Item 2''
                       ''Net income was 7.4 billion.'')
                  = Inr wrapped_plan_response"
    by (simp add: llm_returning_def)
  have unparsed: "example_loads wrapped_plan_response = None"
    by (simp add: example_loads_def company_response_def context_response_def
          plan_response_def wrapped_plan_response_def dq_def)
  from critic_failure_accepts
         [where llm_client = "llm_raising ''rate limit exceeded''"
            and user_query = "''BAC Q1 2025 net income''" and provided_context = "''Item 2''"
            and answer = "''Net income was 7.4 billion.''" and e = "Exn ''rate limit exceeded''"
            and json_loads = example_loads] raised
  have a: "evaluate_and_suggest_improvements (llm_raising ''rate limit exceeded'') example_loads
       ''BAC Q1 2025 net income'' ''Net income was 7.4 billion.'' ''Item 2''
     = JObj [(''decision'', JStr ''ACCEPT''),
             (''feedback'', JStr ''Critic failed to evaluate, accepting by default.'')]"
    by blast
  from critic_failure_accepts
         [where llm_client = "llm_returning wrapped_plan_response"
            and user_query = "''BAC Q1 2025 net income''" and provided_context = "''Item 2''"
            and answer = "''Net income was 7.4 billion.''" and s = wrapped_plan_response
            and json_loads = example_loads] returned unparsed
  have b: "evaluate_and_suggest_improvements (llm_returning wrapped_plan_response) example_loads
       ''BAC Q1 2025 net income'' ''Net income was 7.4 billion.'' ''Item 2''
     = JObj [(''decision'', JStr ''ACCEPT''),
             (''feedback'', JStr ''Critic failed to evaluate, accepting by default.'')]"
    by blast
  from a b show ?thesis by blast
qed


section \<open>Properties of the orchestrator\<close>

text \<open>
  C3. When the planner returns a content-extraction plan whose sections to retrieve are
  empty (an empty list, or any other falsy value), \<^verbatim>\<open>run\<close> returns the message that
  the plan did not specify sections, and it has made no call: no retrieval query, no
  map step and no reduce step. The critic is not called by \<^verbatim>\<open>run\<close> at all.
\<close>

theorem empty_sections_halts:
  "create_plan query = Inr (Some p) \<Longrightarrow> plan_type p = ''content_extraction'' \<Longrightarrow>
   \<not> py_truthy (sections_to_retrieve p) \<Longrightarrow>
   run create_plan session llm_client textwrap_wrap json_dumps json_dumps_indent query
     = (no_sections_message, [])"
  by (simp add: run_def)

theorem empty_sections_halts_witness:
  "run (planner_returning plan_without_sections) (session_returning [one_section_row])
       (llm_returning ''Net income was 7.4 billion.'') wrap_whole dumps_placeholder
       dumps_placeholder ''BAC Q1 2025 net income''
     = (no_sections_message, [])"
  using empty_sections_halts
    [where create_plan = "planner_returning plan_without_sections"
       and query = "''BAC Q1 2025 net income''" and p = plan_without_sections
       and session = "session_returning [one_section_row]"
       and llm_client = "llm_returning ''Net income was 7.4 billion.''"
       and textwrap_wrap = wrap_whole and json_dumps = dumps_placeholder
       and json_dumps_indent = dumps_placeholder]
  by (simp add: planner_returning_def plan_without_sections_def)

lemma run_raises_on_sections_without_length:
  "run (planner_returning plan_with_number_for_sections) (session_returning [one_section_row])
       (llm_returning ''Net income was 7.4 billion.'') wrap_whole dumps_placeholder
       dumps_placeholder ''BAC Q1 2025 net income''
     = (''I encountered an unexpected error while processing your query: object of type ''
        @ sq @ ''int'' @ sq @ '' has no len()'', [])"
  by (simp add: run_def planner_returning_def plan_with_number_for_sections_def py_len_def
        unexpected_error_message_def)

text \<open>
  C5. The synthesis input is computed by the same map step whether the total character
  count is above the ceiling of 180,000 characters or not: \<^verbatim>\<open>_guided_map_reduce\<close>
  equals \<^verbatim>\<open>map_summarize_sections\<close> on every list of documents and every checklist.
\<close>

theorem guided_map_reduce_same_map_step:
  "guided_map_reduce llm_client textwrap_wrap json_dumps documents user_query checklist
     = map_summarize_sections llm_client textwrap_wrap json_dumps documents user_query checklist"
  by (simp add: guided_map_reduce_def)


section \<open>Properties of the synthesizer\<close>

lemma set_source_filenames:
  "set (source_filenames results) =
     {name. name \<noteq> [] \<and> (\<exists>r \<in> set results. si_filename r = Some name)}"
proof (intro set_eqI iffI)
  fix name assume "name \<in> set (source_filenames results)"
  then show "name \<in> {name. name \<noteq> [] \<and> (\<exists>r \<in> set results. si_filename r = Some name)}"
    by (auto simp: source_filenames_def split: option.splits if_splits)
next
  fix name assume "name \<in> {name. name \<noteq> [] \<and> (\<exists>r \<in> set results. si_filename r = Some name)}"
  then obtain r where r: "r \<in> set results" "si_filename r = Some name" "name \<noteq> []"
    by blast
  then have "name \<in> set (case si_filename r of None \<Rightarrow> [] | Some n \<Rightarrow> if n = [] then [] else [n])"
    by simp
  with r(1) show "name \<in> set (source_filenames results)"
    unfolding source_filenames_def by (simp only: set_sort set_remdups set_concat set_map) blast
qed

lemma source_filenames_sorted:
  "sorted (source_filenames results) \<and> distinct (source_filenames results)"
  by (simp add: source_filenames_def)

lemma source_filenames_example: "source_filenames example_inputs = [''a.txt'', ''b.txt'']"
  by (simp add: source_filenames_def example_inputs_def)

text \<open>
  C8, as the code has it. For a non-empty list of synthesis inputs, when the synthesis
  call returns, the answer is the LLM's text followed by a blank line, the line
  \<^verbatim>\<open>Sources:\<close> and one line \<^verbatim>\<open>- name\<close> for each distinct non-empty filename of the
  inputs, in ascending order (\<^verbatim>\<open>- None\<close> when there is none). The disclaimer is asked
  of the LLM in the prompt and is not added by the code: the answer ends with the
  disclaimer and the sources when the LLM's text ends with the disclaimer.
\<close>

theorem reduce_appends_sources:
  "results \<noteq> [] \<Longrightarrow>
   llm_client (Final_synthesis query goal (synthesis_context results)) = Inr llm_answer \<Longrightarrow>
   reduce_and_synthesize_answer llm_client query results goal
     = Inr (llm_answer @ sources_section results) \<and>
   sources_section results
     = nl @ nl @ ''Sources:'' @ nl
       @ (if source_filenames results = [] then ''- None''
          else join nl (map (\<lambda>name. ''- '' @ name) (source_filenames results))) \<and>
   sorted (source_filenames results) \<and> distinct (source_filenames results) \<and>
   set (source_filenames results)
     = {name. name \<noteq> [] \<and> (\<exists>r \<in> set results. si_filename r = Some name)} \<and>
   (suffix disclaimer llm_answer \<longrightarrow>
      suffix (disclaimer @ sources_section results) (llm_answer @ sources_section results))"
  using set_source_filenames [of results] source_filenames_sorted [of results]
  by (simp add: reduce_and_synthesize_answer_def sources_section_def)

theorem reduce_appends_sources_witness:
  "reduce_and_synthesize_answer (llm_returning (''Report. '' @ disclaimer))
       ''BAC Q1 2025 net income'' example_inputs ''Net income of BAC.''
     = Inr (''Report. '' @ disclaimer @ nl @ nl @ ''Sources:'' @ nl
            @ ''- a.txt'' @ nl @ ''- b.txt'') \<and>
   suffix (disclaimer @ nl @ nl @ ''Sources:'' @ nl @ ''- a.txt'' @ nl @ ''- b.txt'')
     (''Report. '' @ disclaimer @ nl @ nl @ ''Sources:'' @ nl @ ''- a.txt'' @ nl @ ''- b.txt'')"
proof -
  have ne: "example_inputs \<noteq> []"
    by (simp add: example_inputs_def)
  have call: "llm_returning (''Report. '' @ disclaimer)
                (Final_synthesis ''BAC Q1 2025 net income'' ''Net income of BAC.''
                   (synthesis_context example_inputs))
              = Inr (''Report. '' @ disclaimer)"
    by (simp add: llm_returning_def)
  have suf: "suffix disclaimer (''Report. '' @ disclaimer)"
    by (rule suffix_appendI) simp
  have ss: "sources_section example_inputs
              = nl @ nl @ ''Sources:'' @ nl @ ''- a.txt'' @ nl @ ''- b.txt''"
    by (simp add: sources_section_def source_filenames_example)
  note inst = reduce_appends_sources
         [where results = example_inputs
            and llm_client = "llm_returning (''Report. '' @ disclaimer)"
            and query = "''BAC Q1 2025 net income''" and goal = "''Net income of BAC.''"
            and llm_answer = "''Report. '' @ disclaimer", OF ne call]
  from inst have res: "reduce_and_synthesize_answer (llm_returning (''Report. '' @ disclaimer))
       ''BAC Q1 2025 net income'' example_inputs ''Net income of BAC.''
     = Inr ((''Report. '' @ disclaimer) @ sources_section example_inputs)"
    by blast
  from inst suf have "suffix (disclaimer @ sources_section example_inputs)
      ((''Report. '' @ disclaimer) @ sources_section example_inputs)"
    by blast
  with res show ?thesis
    unfolding ss by (simp only: append_assoc)
qed

text \<open>
  C8 as stated fails: the LLM's text here has no disclaimer, and the answer is that
  text and the sources, without the disclaimer anywhere in it.
\<close>

theorem reduce_without_disclaimer:
  "reduce_and_synthesize_answer (llm_returning ''Net income was 7.4 billion.'')
       ''BAC Q1 2025 net income'' example_inputs ''Net income of BAC.''
     = Inr (''Net income was 7.4 billion.'' @ nl @ nl @ ''Sources:'' @ nl
            @ ''- a.txt'' @ nl @ ''- b.txt'') \<and>
   \<not> sublist disclaimer
       (''Net income was 7.4 billion.'' @ nl @ nl @ ''Sources:'' @ nl
        @ ''- a.txt'' @ nl @ ''- b.txt'')"
proof -
  have ne: "example_inputs \<noteq> []"
    by (simp add: example_inputs_def)
  have "reduce_and_synthesize_answer (llm_returning ''Net income was 7.4 billion.'')
       ''BAC Q1 2025 net income'' example_inputs ''Net income of BAC.''
     = Inr (''Net income was 7.4 billion.'' @ nl @ nl @ ''Sources:'' @ nl
            @ ''- a.txt'' @ nl @ ''- b.txt'')"
    using ne
    by (simp add: reduce_and_synthesize_answer_def sources_section_def source_filenames_example
          llm_returning_def)
  moreover have "\<not> sublist disclaimer
       (''Net income was 7.4 billion.'' @ nl @ nl @ ''Sources:'' @ nl
        @ ''- a.txt'' @ nl @ ''- b.txt'')"
    by (auto dest!: sublist_length_le simp: disclaimer_def nl_def)
  ultimately show ?thesis by blast
qed


section \<open>Properties of the query builder\<close>

lemma no_where_in_bare_query:
  "\<not> sublist ''WHERE'' (direct_match_clause @ ''  '' @ return_clause)"
  unfolding direct_match_clause_def return_clause_def by code_simp

text \<open>
  C7. For a plan that takes the Direct strategy (its search type is neither Hybrid nor
  Comprehensive) and has no company, year, quarter or section filter, the built query
  is the MATCH clause, two spaces and the RETURN clause: the text \<^verbatim>\<open>WHERE\<close> does not
  occur in it.
\<close>

theorem direct_without_filters_has_no_where:
  "search_type p \<noteq> Some ''Hybrid'' \<Longrightarrow> search_type p \<noteq> Some ''Comprehensive'' \<Longrightarrow>
   companies p = [] \<Longrightarrow> years p = [] \<Longrightarrow> quarters p = [] \<Longrightarrow> sections p = [] \<Longrightarrow>
   built_query (build_query encode vector_search p)
     = direct_match_clause @ ''  '' @ return_clause \<and>
   \<not> sublist ''WHERE'' (built_query (build_query encode vector_search p))"
  using no_where_in_bare_query
  by (simp add: build_query_def build_direct_query_def direct_where_parts_def)

theorem direct_without_filters_has_no_where_witness:
  "built_query (build_query example_encode example_vector_search unfiltered_direct_plan)
     = ''MATCH (c:Company)-[:HAS_YEAR]->(y:Year)-[:HAS_QUARTER]->(q:Quarter)-[:HAS_DOC]->(d:Document)-[:HAS_SECTION]->(s:Section)  RETURN s.text AS text, s.filename AS filename'' \<and>
   \<not> sublist ''WHERE''
       (built_query (build_query example_encode example_vector_search unfiltered_direct_plan))"
proof -
  have inst:
    "built_query (build_query example_encode example_vector_search unfiltered_direct_plan)
       = direct_match_clause @ ''  '' @ return_clause \<and>
     \<not> sublist ''WHERE''
         (built_query (build_query example_encode example_vector_search unfiltered_direct_plan))"
    by (rule direct_without_filters_has_no_where) (simp_all add: unfiltered_direct_plan_def)
  have lit: "direct_match_clause @ ''  '' @ return_clause
       = ''MATCH (c:Company)-[:HAS_YEAR]->(y:Year)-[:HAS_QUARTER]->(q:Quarter)-[:HAS_DOC]->(d:Document)-[:HAS_SECTION]->(s:Section)  RETURN s.text AS text, s.filename AS filename''"
    by (simp add: direct_match_clause_def return_clause_def)
  from inst show ?thesis
    unfolding lit by blast
qed

lemma direct_query_not_empty: "built_query (build_direct_query p) \<noteq> []"
  by (simp add: build_direct_query_def Let_def direct_match_clause_def)

lemma comprehensive_query_empty_iff:
  "built_query (build_comprehensive_query p) = [] \<longleftrightarrow> companies p = []"
  by (simp add: build_comprehensive_query_def direct_match_clause_def)

lemma hybrid_no_candidates:
  "search_type p = Some ''Hybrid'' \<Longrightarrow> concept p = Some c \<Longrightarrow> c \<noteq> [] \<Longrightarrow>
   snd (vector_search (encode c) 20) = [] \<Longrightarrow>
   built_query (build_query encode vector_search p) = []"
  by (simp add: build_query_def build_hybrid_query_def Let_def)

text \<open>
  C4, as the code has it. For a plan with search type Hybrid whose concept is missing or
  empty, \<^verbatim>\<open>build_query\<close> returns the empty string, whatever the embedding model and
  the vector index are; it logs the error that no concept was found and does not search
  the vector index. It does not fall back: the string differs from the Direct query of
  the plan, and from its Comprehensive query when the plan names a company. The value
  returned is no failure result of its own: it is the string that the builder returns
  when the search finds no candidate, and that the Comprehensive builder returns for a
  plan without a company.
\<close>

theorem hybrid_without_concept_fails:
  "search_type p = Some ''Hybrid'' \<Longrightarrow> concept p = None \<or> concept p = Some [] \<Longrightarrow>
   build_query encode vector_search p
     = \<lparr>built_query = [], vector_searches = [],
        log_lines = [(INFO, ''[Hybrid Search] Building hybrid query using FAISS.''),
                     (ERROR, ''Hybrid search failed: No '' @ sq @ ''concept'' @ sq
                             @ '' found in plan.'')]\<rparr> \<and>
   build_query encode' vector_search' p = build_query encode vector_search p \<and>
   built_query (build_query encode vector_search p) \<noteq> built_query (build_direct_query p) \<and>
   (companies p \<noteq> [] \<longrightarrow>
      built_query (build_query encode vector_search p)
        \<noteq> built_query (build_comprehensive_query p)) \<and>
   (companies p = [] \<longrightarrow>
      built_query (build_query encode vector_search p)
        = built_query (build_comprehensive_query p)) \<and>
   (c \<noteq> [] \<and> snd (vector_search (encode c) 20) = [] \<longrightarrow>
      built_query (build_query encode vector_search p)
        = built_query (build_query encode vector_search (p\<lparr>concept := Some c\<rparr>)))"
proof -
  assume st: "search_type p = Some ''Hybrid''" and co: "concept p = None \<or> concept p = Some []"
  have res: "\<And>enc vs. build_query enc vs p
     = \<lparr>built_query = [], vector_searches = [],
        log_lines = [(INFO, ''[Hybrid Search] Building hybrid query using FAISS.''),
                     (ERROR, ''Hybrid search failed: No '' @ sq @ ''concept'' @ sq
                             @ '' found in plan.'')]\<rparr>"
    using st co by (auto simp: build_query_def build_hybrid_query_def)
  have q: "built_query (build_query encode vector_search p) = []"
    by (simp add: res)
  have d: "built_query (build_query encode vector_search p) \<noteq> built_query (build_direct_query p)"
    unfolding q using direct_query_not_empty [of p] by simp
  have c1: "companies p \<noteq> [] \<longrightarrow>
      built_query (build_query encode vector_search p)
        \<noteq> built_query (build_comprehensive_query p)"
    unfolding q using comprehensive_query_empty_iff [of p] by auto
  have c2: "companies p = [] \<longrightarrow>
      built_query (build_query encode vector_search p)
        = built_query (build_comprehensive_query p)"
    unfolding q using comprehensive_query_empty_iff [of p] by auto
  have n: "c \<noteq> [] \<and> snd (vector_search (encode c) 20) = [] \<longrightarrow>
      built_query (build_query encode vector_search p)
        = built_query (build_query encode vector_search (p\<lparr>concept := Some c\<rparr>))"
    unfolding q
    using hybrid_no_candidates [where p = "p\<lparr>concept := Some c\<rparr>" and c = c
        and encode = encode and vector_search = vector_search] st
    by simp
  from res [of encode vector_search] res [of encode' vector_search'] d c1 c2 n
  show ?thesis by simp
qed

theorem hybrid_without_concept_fails_witness:
  "build_query example_encode empty_vector_search (filtered_hybrid_plan\<lparr>concept := None\<rparr>)
     = \<lparr>built_query = [], vector_searches = [],
        log_lines = [(INFO, ''[Hybrid Search] Building hybrid query using FAISS.''),
                     (ERROR, ''Hybrid search failed: No '' @ sq @ ''concept'' @ sq
                             @ '' found in plan.'')]\<rparr> \<and>
   build_query example_encode example_vector_search (filtered_hybrid_plan\<lparr>concept := Some []\<rparr>)
     = \<lparr>built_query = [], vector_searches = [],
        log_lines = [(INFO, ''[Hybrid Search] Building hybrid query using FAISS.''),
                     (ERROR, ''Hybrid search failed: No '' @ sq @ ''concept'' @ sq
                             @ '' found in plan.'')]\<rparr> \<and>
   build_query example_encode example_vector_search (filtered_hybrid_plan\<lparr>concept := None\<rparr>)
     = build_query example_encode empty_vector_search (filtered_hybrid_plan\<lparr>concept := None\<rparr>) \<and>
   built_query (build_query example_encode empty_vector_search
                  (filtered_hybrid_plan\<lparr>concept := None\<rparr>))
     \<noteq> built_query (build_direct_query (filtered_hybrid_plan\<lparr>concept := None\<rparr>)) \<and>
   built_query (build_query example_encode empty_vector_search
                  (filtered_hybrid_plan\<lparr>concept := None\<rparr>))
     \<noteq> built_query (build_comprehensive_query (filtered_hybrid_plan\<lparr>concept := None\<rparr>)) \<and>
   built_query (build_query example_encode empty_vector_search
                  (filtered_hybrid_plan\<lparr>concept := None, companies := []\<rparr>))
     = built_query (build_comprehensive_query
                      (filtered_hybrid_plan\<lparr>concept := None, companies := []\<rparr>)) \<and>
   built_query (build_query example_encode empty_vector_search
                  (filtered_hybrid_plan\<lparr>concept := None\<rparr>))
     = built_query (build_query example_encode empty_vector_search
                      (filtered_hybrid_plan\<lparr>concept := None, concept := Some ''stress testing''\<rparr>))"
proof -
  note none_inst = hybrid_without_concept_fails
    [where p = "filtered_hybrid_plan\<lparr>concept := None\<rparr>" and encode = example_encode
       and vector_search = empty_vector_search and encode' = example_encode
       and vector_search' = example_vector_search and c = "''stress testing''"]
  note empty_inst = hybrid_without_concept_fails
    [where p = "filtered_hybrid_plan\<lparr>concept := Some []\<rparr>" and encode = example_encode
       and vector_search = example_vector_search and encode' = example_encode
       and vector_search' = example_vector_search and c = "''stress testing''"]
  note bare_inst = hybrid_without_concept_fails
    [where p = "filtered_hybrid_plan\<lparr>concept := None, companies := []\<rparr>"
       and encode = example_encode and vector_search = empty_vector_search
       and encode' = example_encode and vector_search' = example_vector_search
       and c = "''stress testing''"]
  have st: "search_type (filtered_hybrid_plan\<lparr>concept := None\<rparr>) = Some ''Hybrid''"
    "search_type (filtered_hybrid_plan\<lparr>concept := Some []\<rparr>) = Some ''Hybrid''"
    "search_type (filtered_hybrid_plan\<lparr>concept := None, companies := []\<rparr>) = Some ''Hybrid''"
    by (simp_all add: filtered_hybrid_plan_def)
  have co: "concept (filtered_hybrid_plan\<lparr>concept := None\<rparr>) = None
              \<or> concept (filtered_hybrid_plan\<lparr>concept := None\<rparr>) = Some []"
    "concept (filtered_hybrid_plan\<lparr>concept := Some []\<rparr>) = None
              \<or> concept (filtered_hybrid_plan\<lparr>concept := Some []\<rparr>) = Some []"
    "concept (filtered_hybrid_plan\<lparr>concept := None, companies := []\<rparr>) = None
              \<or> concept (filtered_hybrid_plan\<lparr>concept := None, companies := []\<rparr>) = Some []"
    by simp_all
  have cs: "companies (filtered_hybrid_plan\<lparr>concept := None\<rparr>) \<noteq> []"
    "companies (filtered_hybrid_plan\<lparr>concept := None, companies := []\<rparr>) = []"
    by (simp_all add: filtered_hybrid_plan_def)
  have nc: "''stress testing'' \<noteq> [] \<and>
            snd (empty_vector_search (example_encode ''stress testing'') 20) = []"
    by (simp add: empty_vector_search_def)
  note a = none_inst [OF st(1) co(1)]
  note b = empty_inst [OF st(2) co(2)]
  note c = bare_inst [OF st(3) co(3)]
  note a1 = a [THEN conjunct1]
  note b1 = b [THEN conjunct1]
  note a2 = a [THEN conjunct2, THEN conjunct1]
  note a3 = a [THEN conjunct2, THEN conjunct2, THEN conjunct1]
  note a4 = a [THEN conjunct2, THEN conjunct2, THEN conjunct2, THEN conjunct1, THEN mp, OF cs(1)]
  note c5 = c [THEN conjunct2, THEN conjunct2, THEN conjunct2, THEN conjunct2, THEN conjunct1,
      THEN mp, OF cs(2)]
  note a6 = a [THEN conjunct2, THEN conjunct2, THEN conjunct2, THEN conjunct2, THEN conjunct2,
      THEN mp, OF nc]
  show ?thesis
    by (intro conjI) (fact a1 b1 a2 a3 a4 c5 a6)+
qed

text \<open>
  C4 as stated fails: the plan without a concept gives the empty query string, the very
  value that the same builder returns for a plan with a concept when the vector index
  finds no candidate, which is no failure. The caller gets a string and cannot tell the
  two apart.
\<close>

theorem hybrid_failure_is_an_empty_query:
  "built_query (build_query example_encode example_vector_search
                  (filtered_hybrid_plan\<lparr>concept := None\<rparr>)) = [] \<and>
   built_query (build_query example_encode empty_vector_search filtered_hybrid_plan) = [] \<and>
   built_query (build_query example_encode example_vector_search
                  (filtered_hybrid_plan\<lparr>concept := None\<rparr>))
     = built_query (build_query example_encode empty_vector_search filtered_hybrid_plan)"
  by (simp add: build_query_def build_hybrid_query_def filtered_hybrid_plan_def
        empty_vector_search_def)

lemma filtered_hybrid_query:
  "build_query example_encode example_vector_search filtered_hybrid_plan
     = \<lparr>built_query =
          ''MATCH (s:Section) WHERE s.id IN ['' @ sq @ ''s1'' @ sq @ '', '' @ sq @ ''s2'' @ sq
          @ ''] AND EXISTS { MATCH (s)<-[:HAS_SECTION]-(d:Document)<-[:HAS_DOC]-(q:Quarter)<-[:HAS_QUARTER]-(y:Year)<-[:HAS_YEAR]-(c:Company) WHERE c.name IN [''
          @ sq @ ''BAC'' @ sq @ ''] } RETURN s.text AS text, s.filename AS filename'',
        vector_searches = [20],
        log_lines = [(INFO, ''[Hybrid Search] Building hybrid query using FAISS.''),
                     (INFO, ''Performing FAISS search for: '' @ sq @ ''stress testing'' @ sq),
                     (INFO, ''FAISS search found 2 relevant sections.'')]\<rparr>"
  by (simp add: build_query_def build_hybrid_query_def filtered_hybrid_plan_def
        example_vector_search_def hybrid_where_parts_def quoted_list_def return_clause_def
        digit_char_def)

text \<open>
  C2, as the code has it. The Hybrid builder of \<^verbatim>\<open>CypherQueryBuilder\<close> searches the
  vector index once with \<open>k = 20\<close>, whatever filters the plan has, and the query it
  builds from a non-empty search result ends with the RETURN clause, with no LIMIT
  after it. The legacy function \<^verbatim>\<open>generate_cypher_for_hybrid_search\<close> asks the graph
  store's vector index for 50 candidates and ends its query with \<^verbatim>\<open>LIMIT 10\<close>,
  whatever filters the analysis has and whatever its argument \<^verbatim>\<open>top_k\<close> is.
\<close>

theorem hybrid_search_sizes:
  "search_type p = Some ''Hybrid'' \<Longrightarrow> concept p = Some c \<Longrightarrow> c \<noteq> [] \<Longrightarrow>
   vector_searches (build_query encode vector_search p) = [20] \<and>
   (snd (vector_search (encode c) 20) \<noteq> [] \<longrightarrow>
      built_query (build_query encode vector_search p)
        = ''MATCH (s:Section) WHERE ''
          @ join '' AND '' (hybrid_where_parts (snd (vector_search (encode c) 20)) p)
          @ '' RETURN s.text AS text, s.filename AS filename'') \<and>
   prefix (nl @ ''    CALL db.index.vector.queryNodes('' @ sq @ ''section_embeddings'' @ sq
             @ '', 50, $query_embedding)'')
     (fst (generate_cypher_for_hybrid_search p emb top_k)) \<and>
   suffix ''LIMIT 10'' (fst (generate_cypher_for_hybrid_search p emb top_k))"
proof -
  assume st: "search_type p = Some ''Hybrid''" and co: "concept p = Some c" and ne: "c \<noteq> []"
  have k: "vector_searches (build_query encode vector_search p) = [20]"
    using st co ne by (simp add: build_query_def build_hybrid_query_def Let_def)
  have q: "snd (vector_search (encode c) 20) \<noteq> [] \<longrightarrow>
      built_query (build_query encode vector_search p)
        = ''MATCH (s:Section) WHERE ''
          @ join '' AND '' (hybrid_where_parts (snd (vector_search (encode c) 20)) p)
          @ '' RETURN s.text AS text, s.filename AS filename''"
    using st co ne
    by (simp add: build_query_def build_hybrid_query_def Let_def return_clause_def)
  have pre: "prefix (nl @ ''    CALL db.index.vector.queryNodes('' @ sq @ ''section_embeddings''
                       @ sq @ '', 50, $query_embedding)'')
     (fst (generate_cypher_for_hybrid_search p emb top_k))"
    by (simp add: generate_cypher_for_hybrid_search_def legacy_call_clause_def nl_def sq_def
          Let_def)
  have suf: "suffix ''LIMIT 10'' (fst (generate_cypher_for_hybrid_search p emb top_k))"
    by (simp add: generate_cypher_for_hybrid_search_def suffix_def Let_def)
  from k q pre suf show ?thesis by blast
qed

theorem hybrid_search_sizes_witness:
  "vector_searches (build_query example_encode example_vector_search filtered_hybrid_plan) = [20] \<and>
   built_query (build_query example_encode example_vector_search filtered_hybrid_plan)
     = ''MATCH (s:Section) WHERE ''
       @ join '' AND '' (hybrid_where_parts [''s1'', ''s2''] filtered_hybrid_plan)
       @ '' RETURN s.text AS text, s.filename AS filename'' \<and>
   prefix (nl @ ''    CALL db.index.vector.queryNodes('' @ sq @ ''section_embeddings'' @ sq
             @ '', 50, $query_embedding)'')
     (fst (generate_cypher_for_hybrid_search filtered_hybrid_plan (example_encode ''stress testing'') 10)) \<and>
   suffix ''LIMIT 10''
     (fst (generate_cypher_for_hybrid_search filtered_hybrid_plan (example_encode ''stress testing'') 10))"
proof -
  have st: "search_type filtered_hybrid_plan = Some ''Hybrid''"
    and co: "concept filtered_hybrid_plan = Some ''stress testing''"
    by (simp_all add: filtered_hybrid_plan_def)
  have ne: "''stress testing'' \<noteq> []"
    by simp
  have found: "snd (example_vector_search (example_encode ''stress testing'') 20) = [''s1'', ''s2'']"
    by (simp add: example_vector_search_def)
  from hybrid_search_sizes
         [where p = filtered_hybrid_plan and c = "''stress testing''"
            and encode = example_encode and vector_search = example_vector_search
            and emb = "example_encode ''stress testing''" and top_k = 10]
       st co ne found
  show ?thesis by simp
qed

text \<open>
  C2 as stated fails: this Hybrid plan has a company filter, and the builder searches
  with \<open>k = 20\<close>, not 50, and builds a query without \<^verbatim>\<open>LIMIT\<close>.
\<close>

theorem hybrid_with_filter_searches_20:
  "vector_searches (build_query example_encode example_vector_search filtered_hybrid_plan) = [20] \<and>
   companies filtered_hybrid_plan \<noteq> [] \<and>
   \<not> sublist ''LIMIT''
       (built_query (build_query example_encode example_vector_search filtered_hybrid_plan))"
proof -
  have "\<not> sublist ''LIMIT''
       (built_query (build_query example_encode example_vector_search filtered_hybrid_plan))"
    unfolding filtered_hybrid_query built.simps sq_def by code_simp
  then show ?thesis
    by (simp add: filtered_hybrid_query) (simp add: filtered_hybrid_plan_def)
qed

section \<open>Properties of the planner\<close>

lemmas response_defs = company_response_def context_response_def plan_response_def
  wrapped_plan_response_def wrapped_company_response_def dq_def

lemma example_loads_values:
  "example_loads company_response = Some company_response_json"
  "example_loads context_response = Some context_response_json"
  "example_loads plan_response = Some plan_response_json"
  "example_loads wrapped_plan_response = None"
  "example_loads wrapped_company_response = None"
  by (simp_all add: example_loads_def response_defs)

lemma regex_json_object_values:
  "regex_json_object wrapped_plan_response = Some plan_response"
  "regex_json_object wrapped_company_response = Some company_response"
  by (simp_all add: regex_json_object_def response_defs)

lemma loads_or_extract_fails_iff:
  "fst (loads_or_extract json_loads raw) = None \<longleftrightarrow>
     json_loads raw = None \<and>
     (case regex_json_object raw of None \<Rightarrow> True | Some t \<Rightarrow> json_loads t = None)"
  by (simp add: loads_or_extract_def split: option.splits)





lemma upper_char_values:
  "upper_char CHR ''Q'' = CHR ''Q''" "upper_char CHR ''q'' = CHR ''Q''"
  "upper_char CHR ''1'' = CHR ''1''" "upper_char CHR ''2'' = CHR ''2''"
  "upper_char CHR ''3'' = CHR ''3''" "upper_char CHR ''4'' = CHR ''4''"
  "upper_char (CHR 0x0A) = CHR 0x0A"
  by (simp_all add: upper_char_def)


lemma quarter_texts_upper:
  "t \<in> set quarter_texts \<Longrightarrow> upper t \<in> set [''Q1'', ''Q2'', ''Q3'', ''Q4'']"
  by (auto simp: quarter_texts_def upper_def upper_char_values)




lemma validated_data_cases:
  "validated_data json_loads data av_years av_doc_types =
     (case returned_list json_loads data ''years'' of
        None \<Rightarrow> None
      | Some ys \<Rightarrow>
     (case returned_list json_loads data ''quarters'' of
        None \<Rightarrow> None
      | Some qs \<Rightarrow>
     (case returned_list json_loads data ''document_types'' of
        None \<Rightarrow> None
      | Some ds \<Rightarrow>
          Some \<lparr>ctx_years = filter (\<lambda>y. py_in_ints y av_years) ys,
                ctx_quarters =
                  concat (map (\<lambda>q. case q of
                                      JStr t \<Rightarrow> (if quarter_match t then [upper t] else [])
                                    | _ \<Rightarrow> [])
                              qs),
                ctx_document_types = filter (\<lambda>dt. py_in_strs dt av_doc_types) ds\<rparr>)))"
  by (simp add: validated_data_def returned_list_def split: option.splits)

lemma context_result:
  "fst (llm_extract_context_entities llm_client json_loads query cd) =
     (case llm_client (Context_extraction query (available_years cd) (available_doc_types cd)) of
        Inl e \<Rightarrow> empty_context_entities
      | Inr raw \<Rightarrow>
          (case fst (loads_or_extract json_loads raw) of
             None \<Rightarrow> empty_context_entities
           | Some data \<Rightarrow>
               (case validated_data json_loads data (available_years cd) (available_doc_types cd) of
                  None \<Rightarrow> empty_context_entities
                | Some v \<Rightarrow> v)))"
  by (simp add: llm_extract_context_entities_def Let_def split: sum.splits option.splits)



lemma context_failure:
  assumes "(\<exists>e. llm_client (Context_extraction query (available_years cd) (available_doc_types cd)) = Inl e) \<or>
     (llm_client (Context_extraction query (available_years cd) (available_doc_types cd)) = Inr raw \<and>
        (fst (loads_or_extract json_loads raw) = None \<or>
         (fst (loads_or_extract json_loads raw) = Some data \<and>
            (returned_list json_loads data ''years'' = None \<or>
             returned_list json_loads data ''quarters'' = None \<or>
             returned_list json_loads data ''document_types'' = None))))"
  shows "fst (llm_extract_context_entities llm_client json_loads query cd) = empty_context_entities"
  using assms by (auto simp: context_result validated_data_cases split: option.splits)

lemma context_empty_when_years_not_iterable:
  assumes "llm_client (Context_extraction query (available_years cd) (available_doc_types cd)) = Inr raw"
    and "fst (loads_or_extract json_loads raw)
           = Some (JObj [(''years'', JStr s), (''quarters'', JArr [JStr ''Q3'']),
                         (''document_types'', JArr [])])"
    and "json_loads s = Some (JInt n)"
  shows "fst (llm_extract_context_entities llm_client json_loads query cd) = empty_context_entities"
proof -
  have "returned_list json_loads
          (JObj [(''years'', JStr s), (''quarters'', JArr [JStr ''Q3'']),
                 (''document_types'', JArr [])]) ''years'' = None"
    using assms(3)
    by (simp add: returned_list_def py_get_def sanitize_llm_list_output_def py_iter_def)
  with assms(1,2) show ?thesis
    by (intro context_failure [where raw = raw and llm_client = llm_client]) blast
qed














text \<open>
  C6 at a failing input. The LLM answers the extraction-guide request with a sentence of
  prose followed by a JSON object that is a valid plan. \<^verbatim>\<open>json.loads\<close> fails on the
  response; the guide generator then returns \<^verbatim>\<open>None\<close>, and so does the metadata
  classifier on such a response, although the regular expression of the company
  extraction finds the object and the object parses. The company extraction recovers
  from a response of the same shape, and the guide generator accepts the bare object.
\<close>

theorem guide_has_no_regex_retry:
  "llm_generate_extraction_guide (llm_returning wrapped_plan_response)
       example_loads ''BAC Q1 2025 net income'' [] = None \<and>
   llm_classify_and_build_metadata_query (llm_returning wrapped_plan_response)
       example_loads ''BAC Q1 2025 net income'' = None \<and>
   fst (loads_or_extract example_loads wrapped_plan_response) = Some plan_response_json \<and>
   llm_generate_extraction_guide (llm_returning plan_response)
       example_loads ''BAC Q1 2025 net income'' []
     = Some (JObj [(''analysis_goal'', JStr ''Net income of BAC.''),
                   (''sections_to_retrieve'', JArr [JInt 10]),
                   (''extraction_checklist'', JArr []),
                   (''plan_type'', JStr ''content_extraction'')]) \<and>
   fst (llm_extract_company (llm_returning wrapped_company_response)
          example_loads ''BAC Q1 2025 net income'' [''BAC'', ''JPM'']) = [JStr ''BAC'']"
  by (simp add: llm_generate_extraction_guide_def llm_classify_and_build_metadata_query_def
        loads_or_extract_def llm_extract_company_def llm_returning_def
        example_loads_values regex_json_object_values
        plan_response_json_def company_response_json_def
        has_key_def valid_checklist_item_def py_get_def py_iter_def py_in_strs_def py_eq_str_def
        hashable_def)

end
